theory Spec2Isabelle
  imports Main "HOL-Library.Word"
begin

section \<open>The upgrade action of the Syndesis operator\<close>

text \<open>
  This theory embeds \<^verbatim>\<open>pkg/syndesis/action/upgrade.go\<close>: the action that moves a
  Syndesis installation in phase Upgrading to the version the operator supports. The
  action talks to the cluster and to the file system; the model takes what those calls
  answer as a parameter (the record \<open>World\<close>) and returns, next to the Go result, the
  list of calls the action made, in order.
\<close>

subsection \<open>Errors\<close>

text \<open>
  A Go \<^verbatim>\<open>error\<close>. The action only ever asks one question about an error:
  \<^verbatim>\<open>k8serrors.IsNotFound(err)\<close>. \<open>Err\<close> carries the message of any other error;
  \<^verbatim>\<open>errors.New("upgrade pod not found")\<close> is \<open>Err ''upgrade pod not found''\<close>.
\<close>

datatype error = NotFound string | Err string

fun IsNotFound :: "error option \<Rightarrow> bool" where
  "IsNotFound None = False"
| "IsNotFound (Some (NotFound m)) = True"
| "IsNotFound (Some (Err m)) = False"

subsection \<open>Kubernetes objects\<close>

record OwnerReference =
  OwnerKind :: string
  OwnerName :: string

text \<open>\<^verbatim>\<open>metav1.ObjectMeta\<close>, embedded in every object: the fields the action touches.\<close>

record ObjectMeta =
  Name :: string
  Namespace :: string
  OwnerReferences :: "OwnerReference list"

text \<open>
  \<^verbatim>\<open>v1.PodPhase\<close> is a string type; \<^verbatim>\<open>v1.PodSucceeded\<close> and \<^verbatim>\<open>v1.PodFailed\<close> are the
  two values the action compares with.
\<close>

type_synonym PodPhase = string

definition PodSucceeded :: PodPhase where
  "PodSucceeded = ''Succeeded''"

definition PodFailed :: PodPhase where
  "PodFailed = ''Failed''"

text \<open>
  \<^verbatim>\<open>v1.Pod\<close>: \<open>ServiceAccountName\<close> is \<^verbatim>\<open>Spec.ServiceAccountName\<close>, \<open>Phase\<close> is
  \<^verbatim>\<open>Status.Phase\<close>.
\<close>

record Pod = ObjectMeta +
  APIVersion :: string
  Kind :: string
  ServiceAccountName :: string
  Phase :: PodPhase

text \<open>
  A \<^verbatim>\<open>runtime.Object\<close> of the rendered manifest set: a pod, or an object of another
  kind (its kind, its metadata and its body, which the action never reads).
\<close>

datatype Object = PodObject Pod | OtherObject string ObjectMeta string

subsection \<open>The installation\<close>

text \<open>
  Modelled from the spec: the package \<^verbatim>\<open>v1alpha1\<close> (the types of the custom
  resource and the constants of its phase and reason) is not among the sources. The
  phase and the reason are string types with named constants; the action writes
  \<open>Installed\<close>, \<open>UpgradeFailureBackoff\<close>, \<open>SyndesisStatusReasonMissing\<close> and
  \<open>SyndesisStatusReasonUpgradePodFailed\<close>. \<open>UpgradeAttempts\<close> is a Go integer; it is
  taken as 32 bits wide, and its \<open>+\<close> wraps as Go's does. No theorem below depends on
  the width.
\<close>

datatype SyndesisInstallationStatus =
    SyndesisInstallationStatusInstalling
  | SyndesisInstallationStatusUpgrading
  | SyndesisInstallationStatusUpgradeFailureBackoff
  | SyndesisInstallationStatusInstalled
  | SyndesisInstallationStatusOther string

datatype SyndesisStatusReason =
    SyndesisStatusReasonMissing
  | SyndesisStatusReasonUpgradePodFailed
  | SyndesisStatusReasonOther string

type_synonym Time = int

record SyndesisStatus =
  InstallationStatus :: SyndesisInstallationStatus
  Reason :: SyndesisStatusReason
  Version :: string
  LastUpgradeFailure :: "Time option"
  UpgradeAttempts :: "32 word"
  ForceUpgrade :: bool

record Syndesis = ObjectMeta +
  Spec :: string
  Status :: SyndesisStatus

text \<open>
  \<^verbatim>\<open>syndesis.DeepCopy()\<close> gives a value equal to the original that shares nothing with
  it. Values of HOL share nothing, so the copy is the identity.
\<close>

definition DeepCopy :: "Syndesis \<Rightarrow> Syndesis" where
  "DeepCopy syndesis = syndesis"

record UpgradeParams =
  OAuthClientSecret :: string
  SyndesisVersion :: string

text \<open>The action itself: its one field caches the version the operator supports.\<close>

record Upgrade =
  operatorVersion :: string

definition UpgradePodServiceAccountName :: string where
  "UpgradePodServiceAccountName = ''syndesis-operator''"

subsection \<open>The world outside the action\<close>

text \<open>
  What the calls that leave the action answer during one reconciliation. Each field is
  named after the Go function it stands for and takes that function's arguments. The
  version of the namespace is read at two places (line 40, and again at line 98 once
  the upgrade pod has succeeded) and the namespace may have changed in between, so
  the second read has a field of its own.
\<close>

record World =
  GetSyndesisVersionFromOperatorTemplate :: "error + string"
  GetSyndesisVersionFromNamespace :: "string \<Rightarrow> error + string"
  GetSyndesisVersionFromNamespace_again :: "string \<Rightarrow> error + string"
  GetUpgradeResources :: "Syndesis \<Rightarrow> UpgradeParams \<Rightarrow> error + string list"
  LoadKubernetesResource :: "string \<Rightarrow> error + Object"
  sdk_Get :: "Pod \<Rightarrow> error option \<times> Pod"
  createOrReplaceForce :: "Object \<Rightarrow> bool \<Rightarrow> error option"
  sdk_Update :: "Syndesis \<Rightarrow> error option"
  time_Now :: Time

text \<open>The calls that leave the action, with their arguments.\<close>

datatype call =
    Call_GetSyndesisVersionFromOperatorTemplate
  | Call_GetSyndesisVersionFromNamespace string
  | Call_GetUpgradeResources Syndesis UpgradeParams
  | Call_LoadKubernetesResource string
  | Call_Get Pod
  | Call_createOrReplaceForce Object bool
  | Call_Update Syndesis
  | Call_Now

text \<open>The resources applied and the installations submitted for update, read off a trace.\<close>

fun applied :: "call list \<Rightarrow> (Object \<times> bool) list" where
  "applied [] = []"
| "applied (Call_createOrReplaceForce res force # cs) = (res, force) # applied cs"
| "applied (c # cs) = applied cs"

fun updates :: "call list \<Rightarrow> Syndesis list" where
  "updates [] = []"
| "updates (Call_Update target # cs) = target # updates cs"
| "updates (c # cs) = updates cs"

fun templateReads :: "call list \<Rightarrow> nat" where
  "templateReads [] = 0"
| "templateReads (Call_GetSyndesisVersionFromOperatorTemplate # cs) = Suc (templateReads cs)"
| "templateReads (c # cs) = templateReads cs"

subsection \<open>The helpers of the action\<close>

text \<open>The type test \<^verbatim>\<open>res.(*v1.Pod)\<close> of \<^verbatim>\<open>findUpgradePod\<close>.\<close>

fun isPod :: "Object \<Rightarrow> bool" where
  "isPod (PodObject pod) = True"
| "isPod (OtherObject k m b) = False"

text \<open>
  \<^verbatim>\<open>findUpgradePod\<close> returns a pointer to the first pod of the slice. The pointer is
  modelled as the position of the pod in the slice together with the pod found there,
  so that the write through the pointer at line 68 reaches the element of the slice,
  as it does in Go.
\<close>

fun findUpgradePod_from :: "nat \<Rightarrow> Object list \<Rightarrow> error + nat \<times> Pod" where
  "findUpgradePod_from i [] = Inl (Err ''upgrade pod not found'')"
| "findUpgradePod_from i (PodObject pod # resources) = Inr (i, pod)"
| "findUpgradePod_from i (OtherObject k m b # resources) = findUpgradePod_from (Suc i) resources"

definition findUpgradePod :: "Object list \<Rightarrow> error + nat \<times> Pod" where
  "findUpgradePod resources = findUpgradePod_from 0 resources"

text \<open>The loop of \<^verbatim>\<open>getUpgradeResources\<close> (lines 159 to 166).\<close>

fun loadResources :: "World \<Rightarrow> string list \<Rightarrow> Object list \<Rightarrow> (error + Object list) \<times> call list" where
  "loadResources w [] resources = (Inr resources, [])"
| "loadResources w (raw # rawResources) resources =
     (case LoadKubernetesResource w raw of
        Inl err \<Rightarrow> (Inl err, [Call_LoadKubernetesResource raw])
      | Inr res \<Rightarrow>
          (case loadResources w rawResources (resources @ [res]) of
             (r, cs) \<Rightarrow> (r, Call_LoadKubernetesResource raw # cs)))"

definition getUpgradeResources :: "World \<Rightarrow> Upgrade \<Rightarrow> Syndesis \<Rightarrow> (error + Object list) \<times> call list" where
  "getUpgradeResources w a syndesis =
     (let params = \<lparr>OAuthClientSecret = ''-'', SyndesisVersion = operatorVersion a\<rparr> in
      case GetUpgradeResources w syndesis params of
        Inl err \<Rightarrow> (Inl err, [Call_GetUpgradeResources syndesis params])
      | Inr rawResources \<Rightarrow>
          (case loadResources w rawResources [] of
             (r, cs) \<Rightarrow> (r, Call_GetUpgradeResources syndesis params # cs)))"

text \<open>
  \<^verbatim>\<open>getUpgradePodFromNamespace\<close> asks the cluster for the pod of the template's name in
  the installation's namespace; \<^verbatim>\<open>sdk.Get\<close> fills the pod in and returns the error.
\<close>

definition getUpgradePodFromNamespace :: "World \<Rightarrow> Pod \<Rightarrow> Syndesis \<Rightarrow> (Pod \<times> error option) \<times> call list" where
  "getUpgradePodFromNamespace w podTemplate syndesis =
     (let pod = \<lparr>Name = Name podTemplate, Namespace = Namespace syndesis, OwnerReferences = [],
                 APIVersion = APIVersion podTemplate, Kind = Kind podTemplate,
                 ServiceAccountName = [], Phase = []\<rparr> in
      case sdk_Get w pod of (err, pod') \<Rightarrow> ((pod', err), [Call_Get pod]))"

text \<open>
  Modelled from the spec: \<^verbatim>\<open>setNamespaceAndOwnerReference\<close> is defined in another
  file of the package, which is not among the sources. By section 4.3 it stamps the
  resource's namespace to the owning installation's namespace and sets an owner
  reference to the installation; it changes nothing else of the resource.
\<close>

definition ownerReference :: "Syndesis \<Rightarrow> OwnerReference" where
  "ownerReference syndesis = \<lparr>OwnerKind = ''Syndesis'', OwnerName = Name syndesis\<rparr>"

fun setNamespaceAndOwnerReference :: "Object \<Rightarrow> Syndesis \<Rightarrow> Object" where
  "setNamespaceAndOwnerReference (PodObject pod) syndesis =
     PodObject (pod\<lparr>Namespace := Namespace syndesis, OwnerReferences := [ownerReference syndesis]\<rparr>)"
| "setNamespaceAndOwnerReference (OtherObject k m b) syndesis =
     OtherObject k (m\<lparr>Namespace := Namespace syndesis, OwnerReferences := [ownerReference syndesis]\<rparr>) b"

text \<open>The loop of lines 70 to 77: stamp, apply with \<^verbatim>\<open>force = true\<close>, stop at the first error.\<close>

fun applyResources :: "World \<Rightarrow> Syndesis \<Rightarrow> Object list \<Rightarrow> error option \<times> call list" where
  "applyResources w syndesis [] = (None, [])"
| "applyResources w syndesis (res # resources) =
     (let res' = setNamespaceAndOwnerReference res syndesis in
      case createOrReplaceForce w res' True of
        Some err \<Rightarrow> (Some err, [Call_createOrReplaceForce res' True])
      | None \<Rightarrow>
          (case applyResources w syndesis resources of
             (r, cs) \<Rightarrow> (r, Call_createOrReplaceForce res' True # cs)))"

text \<open>The status that \<^verbatim>\<open>upgradeCompleted\<close> submits (lines 137 to 143).\<close>

definition completedTarget :: "Syndesis \<Rightarrow> string \<Rightarrow> Syndesis" where
  "completedTarget syndesis newVersion =
     (let target = DeepCopy syndesis in
      target\<lparr>Status := (Status target)
        \<lparr>InstallationStatus := SyndesisInstallationStatusInstalled,
         Reason := SyndesisStatusReasonMissing,
         Version := newVersion,
         LastUpgradeFailure := None,
         UpgradeAttempts := 0,
         ForceUpgrade := False\<rparr>\<rparr>)"

definition upgradeCompleted :: "World \<Rightarrow> Syndesis \<Rightarrow> string \<Rightarrow> error option \<times> call list" where
  "upgradeCompleted w syndesis newVersion =
     (let target = completedTarget syndesis newVersion in
      (sdk_Update w target, [Call_Update target]))"

subsection \<open>Execute\<close>

text \<open>
  Lines 32 to 38: the cached version, read from the operator's template when the cache
  is empty. The cache is a field of the action, so the write of line 37 outlives the
  call: \<open>Execute\<close> returns the action next to its result.
\<close>

definition resolveOperatorVersion :: "World \<Rightarrow> Upgrade \<Rightarrow> (error + Upgrade) \<times> call list" where
  "resolveOperatorVersion w a =
     (if operatorVersion a = [] then
        (case GetSyndesisVersionFromOperatorTemplate w of
           Inl err \<Rightarrow> (Inl err, [Call_GetSyndesisVersionFromOperatorTemplate])
         | Inr v \<Rightarrow> (Inr (a\<lparr>operatorVersion := v\<rparr>), [Call_GetSyndesisVersionFromOperatorTemplate]))
      else (Inr a, []))"

text \<open>
  The local variables of \<open>Execute\<close> at line 61, where it branches: the two versions,
  the loaded resources, the pointer to the template's pod, and what the cluster
  answered when asked for the live pod.
\<close>

record Locals =
  loc_namespaceVersion :: string
  loc_targetVersion :: string
  loc_resources :: "Object list"
  loc_templateUpgradePod :: "nat \<times> Pod"
  loc_upgradePod :: Pod
  loc_err :: "error option"

text \<open>Lines 32 to 59: every step that fails returns its error.\<close>

definition Execute_fetch :: "World \<Rightarrow> Upgrade \<Rightarrow> Syndesis \<Rightarrow> (error + Locals) \<times> Upgrade \<times> call list" where
  "Execute_fetch w a syndesis =
     (case resolveOperatorVersion w a of
        (Inl err, cs0) \<Rightarrow> (Inl err, a, cs0)
      | (Inr a, cs0) \<Rightarrow>
     (let cs1 = cs0 @ [Call_GetSyndesisVersionFromNamespace (Namespace syndesis)] in
      case GetSyndesisVersionFromNamespace w (Namespace syndesis) of
        Inl err \<Rightarrow> (Inl err, a, cs1)
      | Inr namespaceVersion \<Rightarrow>
     (let targetVersion = operatorVersion a in
      case getUpgradeResources w a syndesis of
        (Inl err, cs2) \<Rightarrow> (Inl err, a, cs1 @ cs2)
      | (Inr resources, cs2) \<Rightarrow>
     (case findUpgradePod resources of
        Inl err \<Rightarrow> (Inl err, a, cs1 @ cs2)
      | Inr templateUpgradePod \<Rightarrow>
     (case getUpgradePodFromNamespace w (snd templateUpgradePod) syndesis of
        ((upgradePod, err), cs3) \<Rightarrow>
          (case err of
             Some e \<Rightarrow>
               if \<not> IsNotFound err then (Inl e, a, cs1 @ cs2 @ cs3)
               else (Inr \<lparr>loc_namespaceVersion = namespaceVersion, loc_targetVersion = targetVersion,
                          loc_resources = resources, loc_templateUpgradePod = templateUpgradePod,
                          loc_upgradePod = upgradePod, loc_err = err\<rparr>, a, cs1 @ cs2 @ cs3)
           | None \<Rightarrow>
               (Inr \<lparr>loc_namespaceVersion = namespaceVersion, loc_targetVersion = targetVersion,
                     loc_resources = resources, loc_templateUpgradePod = templateUpgradePod,
                     loc_upgradePod = upgradePod, loc_err = err\<rparr>, a, cs1 @ cs2 @ cs3)))))))"

text \<open>The submitted copies of lines 80 and 81, 108 and 109, and 117 to 123.\<close>

definition forceCleared :: "Syndesis \<Rightarrow> Syndesis" where
  "forceCleared syndesis =
     (let target = DeepCopy syndesis in
      target\<lparr>Status := (Status target)\<lparr>ForceUpgrade := False\<rparr>\<rparr>)"

definition forceSet :: "Syndesis \<Rightarrow> Syndesis" where
  "forceSet syndesis =
     (let target = DeepCopy syndesis in
      target\<lparr>Status := (Status target)\<lparr>ForceUpgrade := True\<rparr>\<rparr>)"

definition failedTarget :: "Syndesis \<Rightarrow> Time \<Rightarrow> Syndesis" where
  "failedTarget syndesis now =
     (let target = DeepCopy syndesis;
          target = target\<lparr>Status := (Status target)
            \<lparr>InstallationStatus := SyndesisInstallationStatusUpgradeFailureBackoff\<rparr>\<rparr>;
          target = target\<lparr>Status := (Status target)
            \<lparr>Reason := SyndesisStatusReasonUpgradePodFailed\<rparr>\<rparr>;
          target = target\<lparr>Status := (Status target)\<lparr>LastUpgradeFailure := Some now\<rparr>\<rparr>
      in target\<lparr>Status := (Status target)
           \<lparr>UpgradeAttempts := UpgradeAttempts (Status target) + 1\<rparr>\<rparr>)"

text \<open>Lines 61 to 132: the branches on the force flag, the live pod and the versions.\<close>

definition Execute_branch :: "World \<Rightarrow> Syndesis \<Rightarrow> Locals \<Rightarrow> error option \<times> call list" where
  "Execute_branch w syndesis l =
     (if ForceUpgrade (Status syndesis) \<or> IsNotFound (loc_err l) then
        (if loc_namespaceVersion l \<noteq> loc_targetVersion l then
           (let resources = (loc_resources l)[fst (loc_templateUpgradePod l) :=
                  PodObject ((snd (loc_templateUpgradePod l))
                    \<lparr>ServiceAccountName := UpgradePodServiceAccountName\<rparr>)] in
            case applyResources w syndesis resources of
              (Some err, cs) \<Rightarrow> (Some err, cs)
            | (None, cs) \<Rightarrow>
                (if ForceUpgrade (Status syndesis) then
                   (let target = forceCleared syndesis in
                    (sdk_Update w target, cs @ [Call_Update target]))
                 else (None, cs)))
         else upgradeCompleted w syndesis (loc_targetVersion l))
      else
        (if Phase (loc_upgradePod l) = PodSucceeded then
           (let cs = [Call_GetSyndesisVersionFromNamespace (Namespace syndesis)] in
            case GetSyndesisVersionFromNamespace_again w (Namespace syndesis) of
              Inl err \<Rightarrow> (Some err, cs)
            | Inr newNamespaceVersion \<Rightarrow>
                (if newNamespaceVersion = loc_targetVersion l then
                   (case upgradeCompleted w syndesis (loc_targetVersion l) of
                      (r, cs') \<Rightarrow> (r, cs @ cs'))
                 else
                   (let target = forceSet syndesis in
                    (sdk_Update w target, cs @ [Call_Update target]))))
         else if Phase (loc_upgradePod l) = PodFailed then
           (let target = failedTarget syndesis (time_Now w) in
            (sdk_Update w target, [Call_Now, Call_Update target]))
         else (None, [])))"

definition Execute :: "World \<Rightarrow> Upgrade \<Rightarrow> Syndesis \<Rightarrow> error option \<times> Upgrade \<times> call list" where
  "Execute w a syndesis =
     (case Execute_fetch w a syndesis of
        (Inl err, a, cs) \<Rightarrow> (Some err, a, cs)
      | (Inr l, a, cs) \<Rightarrow>
          (case Execute_branch w syndesis l of (r, cs') \<Rightarrow> (r, a, cs @ cs')))"

subsection \<open>A cluster to run the action on\<close>

text \<open>
  The scenario of section 8 of the specification: the operator supports version 1.5.0,
  the installation \<^verbatim>\<open>example\<close> lives in the namespace \<^verbatim>\<open>syndesis\<close>, and the upgrade
  template renders a config map and the upgrade pod. The cluster is a parameter of the
  version it reports at the two reads, of the answer of \<^verbatim>\<open>sdk.Get\<close> and of the phase
  of the live pod; every apply and every update succeeds.
\<close>

definition upgradePodTemplate :: Pod where
  "upgradePodTemplate =
     \<lparr>Name = ''syndesis-upgrade'', Namespace = [], OwnerReferences = [],
      APIVersion = ''v1'', Kind = ''Pod'', ServiceAccountName = [], Phase = []\<rparr>"

definition upgradeConfig :: Object where
  "upgradeConfig =
     OtherObject ''ConfigMap''
       \<lparr>Name = ''syndesis-upgrade-config'', Namespace = [], OwnerReferences = []\<rparr> ''data''"

definition installation :: "bool \<Rightarrow> Syndesis" where
  "installation force =
     \<lparr>Name = ''example'', Namespace = ''syndesis'', OwnerReferences = [],
      Spec = ''routeHostname: syndesis.192.168.64.79.nip.io'',
      Status = \<lparr>InstallationStatus = SyndesisInstallationStatusUpgrading,
                Reason = SyndesisStatusReasonMissing,
                Version = ''1.4.2'',
                LastUpgradeFailure = Some 500,
                UpgradeAttempts = 2,
                ForceUpgrade = force\<rparr>\<rparr>"

definition cluster :: "string \<Rightarrow> string \<Rightarrow> error option \<Rightarrow> PodPhase \<Rightarrow> World" where
  "cluster live live_again get_err phase =
     \<lparr>GetSyndesisVersionFromOperatorTemplate = Inr ''1.5.0'',
      GetSyndesisVersionFromNamespace = (\<lambda>ns. Inr live),
      GetSyndesisVersionFromNamespace_again = (\<lambda>ns. Inr live_again),
      GetUpgradeResources = (\<lambda>syndesis params. Inr [''config'', ''pod'']),
      LoadKubernetesResource = (\<lambda>raw.
        if raw = ''pod'' then Inr (PodObject upgradePodTemplate)
        else if raw = ''config'' then Inr upgradeConfig
        else Inl (Err ''cannot load'')),
      sdk_Get = (\<lambda>pod. (get_err, pod\<lparr>Phase := phase\<rparr>)),
      createOrReplaceForce = (\<lambda>res force. None),
      sdk_Update = (\<lambda>target. None),
      time_Now = 1000\<rparr>"

definition livePod :: "PodPhase \<Rightarrow> Pod" where
  "livePod phase =
     \<lparr>Name = ''syndesis-upgrade'', Namespace = ''syndesis'', OwnerReferences = [],
      APIVersion = ''v1'', Kind = ''Pod'', ServiceAccountName = [], Phase = phase\<rparr>"

definition fetched :: "string \<Rightarrow> error option \<Rightarrow> PodPhase \<Rightarrow> Locals" where
  "fetched live get_err phase =
     \<lparr>loc_namespaceVersion = live, loc_targetVersion = ''1.5.0'',
      loc_resources = [upgradeConfig, PodObject upgradePodTemplate],
      loc_templateUpgradePod = (1, upgradePodTemplate),
      loc_upgradePod = livePod phase, loc_err = get_err\<rparr>"

definition fetchCalls :: "bool \<Rightarrow> call list" where
  "fetchCalls force =
     [Call_GetSyndesisVersionFromOperatorTemplate,
      Call_GetSyndesisVersionFromNamespace ''syndesis'',
      Call_GetUpgradeResources (installation force) \<lparr>OAuthClientSecret = ''-'', SyndesisVersion = ''1.5.0''\<rparr>,
      Call_LoadKubernetesResource ''config'',
      Call_LoadKubernetesResource ''pod'',
      Call_Get (livePod [])]"

section \<open>Facts about the traces and the helpers\<close>

lemma applied_append: "applied (xs @ ys) = applied xs @ applied ys"
  by (induction xs rule: applied.induct) simp_all

lemma updates_append: "updates (xs @ ys) = updates xs @ updates ys"
  by (induction xs rule: updates.induct) simp_all

lemma templateReads_append: "templateReads (xs @ ys) = templateReads xs + templateReads ys"
  by (induction xs rule: templateReads.induct) simp_all

lemma findUpgradePod_from_Inr:
  "findUpgradePod_from k rs = Inr (i, pod) \<Longrightarrow>
     k \<le> i \<and> i - k < length rs \<and> rs ! (i - k) = PodObject pod \<and> (\<forall>j < i - k. \<not> isPod (rs ! j))"
proof (induction k rs rule: findUpgradePod_from.induct)
  case (1 i)
  then show ?case by simp
next
  case (2 i pod resources)
  then show ?case by simp
next
  case (3 k' kd m b resources)
  then have ih: "Suc k' \<le> i \<and> i - Suc k' < length resources \<and>
      resources ! (i - Suc k') = PodObject pod \<and> (\<forall>j < i - Suc k'. \<not> isPod (resources ! j))"
    by simp
  then have eq: "i - k' = Suc (i - Suc k')" by arith
  show ?case using ih unfolding eq by (auto simp: less_Suc_eq_0_disj)
qed

lemma findUpgradePod_from_Inl:
  "findUpgradePod_from k rs = Inl e \<Longrightarrow> e = Err ''upgrade pod not found'' \<and> (\<forall>r \<in> set rs. \<not> isPod r)"
  by (induction k rs rule: findUpgradePod_from.induct) auto

lemma findUpgradePod_from_no_pod:
  "\<forall>r \<in> set rs. \<not> isPod r \<Longrightarrow> findUpgradePod_from k rs = Inl (Err ''upgrade pod not found'')"
  by (induction k rs rule: findUpgradePod_from.induct) auto

lemma loadResources_calls:
  "loadResources w raws acc = (r, cs) \<Longrightarrow> applied cs = [] \<and> updates cs = [] \<and> templateReads cs = 0"
  by (induction w raws acc arbitrary: r cs rule: loadResources.induct)
     (auto split: sum.splits prod.splits)

lemma getUpgradeResources_calls:
  "getUpgradeResources w a s = (r, cs) \<Longrightarrow> applied cs = [] \<and> updates cs = [] \<and> templateReads cs = 0"
  by (auto simp: getUpgradeResources_def Let_def split: sum.splits prod.splits dest: loadResources_calls)

lemma applyResources_calls:
  "applyResources w s rs = (r, cs) \<Longrightarrow> updates cs = [] \<and> templateReads cs = 0 \<and>
     (\<exists>n \<le> length rs. applied cs = take n (map (\<lambda>res. (setNamespaceAndOwnerReference res s, True)) rs))"
proof (induction w s rs arbitrary: r cs rule: applyResources.induct)
  case (1 w syndesis)
  then show ?case by simp
next
  case (2 w syndesis res resources)
  show ?case
  proof (cases "createOrReplaceForce w (setNamespaceAndOwnerReference res syndesis) True")
    case None
    obtain r' cs' where rec: "applyResources w syndesis resources = (r', cs')"
      by (cases "applyResources w syndesis resources")
    from 2(1)[OF refl None rec] obtain n where n: "n \<le> length resources"
      "applied cs' = take n (map (\<lambda>res. (setNamespaceAndOwnerReference res syndesis, True)) resources)"
      "updates cs' = []" "templateReads cs' = 0"
      by blast
    from 2(2) None rec have cs: "cs = Call_createOrReplaceForce (setNamespaceAndOwnerReference res syndesis) True # cs'"
      by (simp add: Let_def)
    have "applied cs = take (Suc n) (map (\<lambda>res. (setNamespaceAndOwnerReference res syndesis, True)) (res # resources))"
      using n cs by simp
    moreover have "Suc n \<le> length (res # resources)" using n by simp
    ultimately show ?thesis using n cs by (intro conjI exI[of _ "Suc n"]) simp_all
  next
    case (Some e)
    with 2(2) have cs: "cs = [Call_createOrReplaceForce (setNamespaceAndOwnerReference res syndesis) True]"
      by (simp add: Let_def)
    have "applied cs = take 1 (map (\<lambda>res. (setNamespaceAndOwnerReference res syndesis, True)) (res # resources))"
      using cs by simp
    then show ?thesis using cs by (intro conjI exI[of _ 1]) simp_all
  qed
qed


lemma resolveOperatorVersion_calls:
  "resolveOperatorVersion w a = (r, cs) \<Longrightarrow>
     applied cs = [] \<and> updates cs = [] \<and> templateReads cs = (if operatorVersion a = [] then 1 else 0)"
  by (auto simp: resolveOperatorVersion_def split: if_splits sum.splits)

lemma getUpgradePodFromNamespace_calls:
  "getUpgradePodFromNamespace w p s = (r, cs) \<Longrightarrow>
     applied cs = [] \<and> updates cs = [] \<and> templateReads cs = 0"
  by (auto simp: getUpgradePodFromNamespace_def Let_def split: prod.splits)

lemma Execute_fetch_Inr:
  assumes "Execute_fetch w a s = (Inr l, a', cs)"
  shows "\<exists>cs0 cs2 cs3.
      resolveOperatorVersion w a = (Inr a', cs0) \<and>
      GetSyndesisVersionFromNamespace w (Namespace s) = Inr (loc_namespaceVersion l) \<and>
      loc_targetVersion l = operatorVersion a' \<and>
      getUpgradeResources w a' s = (Inr (loc_resources l), cs2) \<and>
      findUpgradePod (loc_resources l) = Inr (loc_templateUpgradePod l) \<and>
      getUpgradePodFromNamespace w (snd (loc_templateUpgradePod l)) s = ((loc_upgradePod l, loc_err l), cs3) \<and>
      (loc_err l = None \<or> IsNotFound (loc_err l)) \<and>
      cs = cs0 @ [Call_GetSyndesisVersionFromNamespace (Namespace s)] @ cs2 @ cs3"
  using assms unfolding Execute_fetch_def Let_def
  by (auto split: sum.splits prod.splits option.splits if_splits)

lemma Execute_fetch_calls:
  assumes "Execute_fetch w a s = (r, a', cs)"
  shows "applied cs = [] \<and> updates cs = [] \<and> templateReads cs = (if operatorVersion a = [] then 1 else 0)"
  using assms unfolding Execute_fetch_def Let_def
  by (auto simp: applied_append updates_append templateReads_append
           split: sum.splits prod.splits option.splits if_splits
           dest!: resolveOperatorVersion_calls getUpgradeResources_calls getUpgradePodFromNamespace_calls)

lemma Execute_branch_calls:
  assumes "Execute_branch w s l = (r, cs)"
  shows "templateReads cs = 0"
  using assms unfolding Execute_branch_def Let_def upgradeCompleted_def
  by (auto simp: templateReads_append
           split: sum.splits prod.splits option.splits if_splits
           dest!: applyResources_calls)

lemma findUpgradePod_from_first:
  "i < length rs \<Longrightarrow> rs ! i = PodObject pod \<Longrightarrow> \<forall>j<i. \<not> isPod (rs ! j) \<Longrightarrow>
   findUpgradePod_from k rs = Inr (k + i, pod)"
proof (induction rs arbitrary: i k)
  case Nil
  then show ?case by simp
next
  case (Cons r rs)
  show ?case
  proof (cases i)
    case 0
    with Cons.prems show ?thesis by simp
  next
    case (Suc i')
    with Cons.prems have "\<not> isPod r" by auto
    then obtain kd m b where r: "r = OtherObject kd m b" by (cases r) simp_all
    have "findUpgradePod_from (Suc k) rs = Inr (Suc k + i', pod)"
      using Cons.prems Suc by (intro Cons.IH) auto
    with r Suc show ?thesis by simp
  qed
qed



lemma Execute_branch_updates:
  assumes "Execute_branch w s l = (r, cs)"
  shows "updates cs = [] \<or>
     (\<exists>cs' target. cs = cs' @ [Call_Update target] \<and> updates cs' = [] \<and> r = sdk_Update w target \<and>
        (target = forceCleared s \<or> target = forceSet s \<and> \<not> ForceUpgrade (Status s) \<or>
         target = failedTarget s (time_Now w) \<and> \<not> ForceUpgrade (Status s) \<or>
         target = completedTarget s (loc_targetVersion l)))"
proof (cases "ForceUpgrade (Status s) \<or> IsNotFound (loc_err l)")
  case True
  note A = this
  show ?thesis
  proof (cases "loc_namespaceVersion l \<noteq> loc_targetVersion l")
    case True
    obtain r' acs where ap: "applyResources w s ((loc_resources l)[fst (loc_templateUpgradePod l) :=
        PodObject ((snd (loc_templateUpgradePod l))\<lparr>ServiceAccountName := UpgradePodServiceAccountName\<rparr>)]) = (r', acs)"
      by (cases "applyResources w s ((loc_resources l)[fst (loc_templateUpgradePod l) :=
        PodObject ((snd (loc_templateUpgradePod l))\<lparr>ServiceAccountName := UpgradePodServiceAccountName\<rparr>)])")
    have u: "updates acs = []" using applyResources_calls[OF ap] by simp
    show ?thesis
      using assms A True ap u
      by (cases r') (auto simp: Execute_branch_def Let_def split: if_splits)
  next
    case False
    then show ?thesis
      using assms A
      by (auto simp: Execute_branch_def upgradeCompleted_def Let_def intro!: exI[of _ "[]"])
  qed
next
  case False
  then have nf: "\<not> ForceUpgrade (Status s)" by simp
  have "\<exists>x. [Call_Now, Call_Update t] = x @ [Call_Update t] \<and> updates x = []" for t
    by (rule exI[of _ "[Call_Now]"]) simp
  moreover have "\<exists>x. [Call_GetSyndesisVersionFromNamespace n, Call_Update t] = x @ [Call_Update t] \<and> updates x = []" for t n
    by (rule exI[of _ "[Call_GetSyndesisVersionFromNamespace n]"]) simp
  ultimately show ?thesis
    using assms False
    by (auto simp: Execute_branch_def upgradeCompleted_def Let_def split: if_splits sum.splits)
qed

lemma Execute_templateReads:
  assumes "Execute w a syndesis = (r, a', cs)"
  shows "templateReads cs = (if operatorVersion a = [] then 1 else 0)"
proof (cases "Execute_fetch w a syndesis")
  case (fields x a1 fcs)
  note f = Execute_fetch_calls[OF fields]
  show ?thesis
  proof (cases x)
    case (Inl e)
    with fields assms f show ?thesis by (auto simp: Execute_def)
  next
    case (Inr l)
    obtain r' bcs where b: "Execute_branch w syndesis l = (r', bcs)"
      by (cases "Execute_branch w syndesis l")
    from Inr fields assms b f Execute_branch_calls[OF b] show ?thesis
      by (auto simp: Execute_def templateReads_append)
  qed
qed

lemma Execute_fetch_action:
  assumes "Execute_fetch w a syndesis = (x, a', cs)"
  shows "a' = (case resolveOperatorVersion w a of (Inl e, cs0) \<Rightarrow> a | (Inr a1, cs0) \<Rightarrow> a1)"
  using assms unfolding Execute_fetch_def Let_def
  by (auto split: sum.splits prod.splits option.splits if_splits)

lemma Execute_action:
  assumes "Execute w a syndesis = (r, a', cs)"
  shows "a' = (case resolveOperatorVersion w a of (Inl e, cs0) \<Rightarrow> a | (Inr a1, cs0) \<Rightarrow> a1)"
proof (cases "Execute_fetch w a syndesis")
  case (fields x a1 fcs)
  from assms fields have "a' = a1"
    by (auto simp: Execute_def split: sum.splits prod.splits)
  with Execute_fetch_action[OF fields] show ?thesis by simp
qed

subsection \<open>The action on the example cluster\<close>

lemma cluster_fetch:
  "get_err = None \<or> IsNotFound get_err \<Longrightarrow>
   Execute_fetch (cluster live again get_err phase) \<lparr>operatorVersion = []\<rparr> (installation force) =
     (Inr (fetched live get_err phase), \<lparr>operatorVersion = ''1.5.0''\<rparr>, fetchCalls force)"
  by (cases get_err)
     (simp_all add: Execute_fetch_def resolveOperatorVersion_def getUpgradeResources_def
        findUpgradePod_def getUpgradePodFromNamespace_def cluster_def installation_def
        upgradePodTemplate_def upgradeConfig_def fetched_def fetchCalls_def livePod_def Let_def)

lemma cluster_fetch_cached:
  "get_err = None \<or> IsNotFound get_err \<Longrightarrow>
   Execute_fetch (cluster live again get_err phase) \<lparr>operatorVersion = ''1.5.0''\<rparr> (installation force) =
     (Inr (fetched live get_err phase), \<lparr>operatorVersion = ''1.5.0''\<rparr>, tl (fetchCalls force))"
  by (cases get_err)
     (simp_all add: Execute_fetch_def resolveOperatorVersion_def getUpgradeResources_def
        findUpgradePod_def getUpgradePodFromNamespace_def cluster_def installation_def
        upgradePodTemplate_def upgradeConfig_def fetched_def fetchCalls_def livePod_def Let_def)

lemmas cluster_fetch_present = cluster_fetch[OF disjI1[OF refl]]

lemmas cluster_fetch_cached_present = cluster_fetch_cached[OF disjI1[OF refl]]

lemmas cluster_simps =
  Execute_branch_def upgradeCompleted_def completedTarget_def forceCleared_def forceSet_def
  failedTarget_def DeepCopy_def Let_def fetched_def livePod_def PodFailed_def PodSucceeded_def
  installation_def cluster_def upgradeConfig_def upgradePodTemplate_def ownerReference_def
  UpgradePodServiceAccountName_def

lemma run_failed:
  "Execute (cluster ''1.4.2'' ''1.4.2'' None PodFailed) \<lparr>operatorVersion = []\<rparr> (installation False) =
     (None, \<lparr>operatorVersion = ''1.5.0''\<rparr>,
      fetchCalls False @ [Call_Now, Call_Update ((installation False)\<lparr>Status :=
        \<lparr>InstallationStatus = SyndesisInstallationStatusUpgradeFailureBackoff,
         Reason = SyndesisStatusReasonUpgradePodFailed,
         Version = ''1.4.2'',
         LastUpgradeFailure = Some 1000,
         UpgradeAttempts = 3,
         ForceUpgrade = False\<rparr>\<rparr>)])"
  unfolding Execute_def cluster_fetch_present by (simp add: cluster_simps)

lemma run_forced:
  "Execute (cluster ''1.4.2'' ''1.4.2'' None ''Running'') \<lparr>operatorVersion = []\<rparr> (installation True) =
     (None, \<lparr>operatorVersion = ''1.5.0''\<rparr>,
      fetchCalls True @
      [Call_createOrReplaceForce
         (OtherObject ''ConfigMap''
            \<lparr>Name = ''syndesis-upgrade-config'', Namespace = ''syndesis'',
             OwnerReferences = [\<lparr>OwnerKind = ''Syndesis'', OwnerName = ''example''\<rparr>]\<rparr> ''data'') True,
       Call_createOrReplaceForce
         (PodObject
            \<lparr>Name = ''syndesis-upgrade'', Namespace = ''syndesis'',
             OwnerReferences = [\<lparr>OwnerKind = ''Syndesis'', OwnerName = ''example''\<rparr>],
             APIVersion = ''v1'', Kind = ''Pod'', ServiceAccountName = ''syndesis-operator'',
             Phase = []\<rparr>) True,
       Call_Update ((installation True)\<lparr>Status :=
        \<lparr>InstallationStatus = SyndesisInstallationStatusUpgrading,
         Reason = SyndesisStatusReasonMissing,
         Version = ''1.4.2'',
         LastUpgradeFailure = Some 500,
         UpgradeAttempts = 2,
         ForceUpgrade = False\<rparr>\<rparr>)])"
  unfolding Execute_def cluster_fetch_present by (simp add: cluster_simps)


lemma run_running:
  "Execute (cluster ''1.4.2'' ''1.4.2'' None ''Running'') \<lparr>operatorVersion = []\<rparr> (installation False) =
     (None, \<lparr>operatorVersion = ''1.5.0''\<rparr>, fetchCalls False)"
  unfolding Execute_def cluster_fetch_present by (simp add: cluster_simps)

lemma run_running_cached:
  "Execute (cluster ''1.4.2'' ''1.4.2'' None ''Running'') \<lparr>operatorVersion = ''1.5.0''\<rparr> (installation False) =
     (None, \<lparr>operatorVersion = ''1.5.0''\<rparr>, tl (fetchCalls False))"
  unfolding Execute_def cluster_fetch_cached_present by (simp add: cluster_simps)

section \<open>The claims\<close>




text \<open>
  C2. When the live pod is there (\<^verbatim>\<open>sdk.Get\<close> returned no error), \<open>ForceUpgrade\<close> is
  not set and the phase of the pod is \<^verbatim>\<open>Failed\<close>, the reconciliation submits exactly
  one update, and returns its result: the installation in phase
  \<open>UpgradeFailureBackoff\<close> with reason \<open>UpgradePodFailed\<close>, the time of the failure
  set, and \<open>UpgradeAttempts\<close> the prior value plus 1 (the addition of the field's Go
  type). The version and the force flag are kept.
\<close>

theorem failed_pod_commits_backoff:
  assumes "Execute_fetch w a syndesis = (Inr l, a', cs)"
    and "loc_err l = None"
    and "\<not> ForceUpgrade (Status syndesis)"
    and "Phase (loc_upgradePod l) = PodFailed"
  shows "let target = syndesis\<lparr>Status := (Status syndesis)
             \<lparr>InstallationStatus := SyndesisInstallationStatusUpgradeFailureBackoff,
              Reason := SyndesisStatusReasonUpgradePodFailed,
              LastUpgradeFailure := Some (time_Now w),
              UpgradeAttempts := UpgradeAttempts (Status syndesis) + 1\<rparr>\<rparr>;
             calls = cs @ [Call_Now, Call_Update target]
         in Execute w a syndesis = (sdk_Update w target, a', calls) \<and>
            updates calls = [target] \<and>
            InstallationStatus (Status target) = SyndesisInstallationStatusUpgradeFailureBackoff \<and>
            Reason (Status target) = SyndesisStatusReasonUpgradePodFailed \<and>
            UpgradeAttempts (Status target) = UpgradeAttempts (Status syndesis) + 1 \<and>
            LastUpgradeFailure (Status target) \<noteq> None"
proof -
  have ne: "PodFailed \<noteq> PodSucceeded" by (simp add: PodFailed_def PodSucceeded_def)
  have u: "updates cs = []" using Execute_fetch_calls[OF assms(1)] by simp
  show ?thesis
    using assms ne u
    by (simp add: Execute_def Execute_branch_def failedTarget_def DeepCopy_def Let_def updates_append)
qed

theorem failed_pod_commits_backoff_witness:
  "loc_err (fetched ''1.4.2'' None PodFailed) = None \<and>
   \<not> ForceUpgrade (Status (installation False)) \<and>
   Phase (loc_upgradePod (fetched ''1.4.2'' None PodFailed)) = PodFailed \<and>
   UpgradeAttempts (Status (installation False)) = 2 \<and>
   Execute (cluster ''1.4.2'' ''1.4.2'' None PodFailed) \<lparr>operatorVersion = []\<rparr> (installation False) =
     (None, \<lparr>operatorVersion = ''1.5.0''\<rparr>,
      fetchCalls False @ [Call_Now, Call_Update ((installation False)\<lparr>Status :=
        \<lparr>InstallationStatus = SyndesisInstallationStatusUpgradeFailureBackoff,
         Reason = SyndesisStatusReasonUpgradePodFailed,
         Version = ''1.4.2'',
         LastUpgradeFailure = Some 1000,
         UpgradeAttempts = 3,
         ForceUpgrade = False\<rparr>\<rparr>)])"
proof -
  let ?w = "cluster ''1.4.2'' ''1.4.2'' None PodFailed"
  let ?l = "fetched ''1.4.2'' None PodFailed"
  have f: "Execute_fetch ?w \<lparr>operatorVersion = []\<rparr> (installation False) =
      (Inr ?l, \<lparr>operatorVersion = ''1.5.0''\<rparr>, fetchCalls False)"
    by (rule cluster_fetch_present)
  have present: "loc_err ?l = None" by (simp add: fetched_def)
  have noforce: "\<not> ForceUpgrade (Status (installation False))" by (simp add: installation_def)
  have failed: "Phase (loc_upgradePod ?l) = PodFailed" by (simp add: fetched_def livePod_def)
  have two: "UpgradeAttempts (Status (installation False)) = 2" by (simp add: installation_def)
  from failed_pod_commits_backoff[OF f present noforce failed]
  have "Execute ?w \<lparr>operatorVersion = []\<rparr> (installation False) =
     (None, \<lparr>operatorVersion = ''1.5.0''\<rparr>,
      fetchCalls False @ [Call_Now, Call_Update ((installation False)\<lparr>Status :=
        \<lparr>InstallationStatus = SyndesisInstallationStatusUpgradeFailureBackoff,
         Reason = SyndesisStatusReasonUpgradePodFailed,
         Version = ''1.4.2'',
         LastUpgradeFailure = Some 1000,
         UpgradeAttempts = 3,
         ForceUpgrade = False\<rparr>\<rparr>)])"
    by (simp add: Let_def installation_def cluster_def)
  with present noforce failed two show ?thesis by simp
qed

text \<open>
  C3. When the cluster has no upgrade pod (\<^verbatim>\<open>sdk.Get\<close> answered not-found) and the
  version of the namespace equals the target version, the reconciliation applies
  nothing and submits exactly one update, whose result it returns: the installation
  with the status \<open>Installed\<close>, the reason cleared, the version set to the target
  version, no failure time, no attempts and no force flag, whatever these were before.
\<close>

theorem current_version_without_pod_commits_installed:
  assumes "Execute_fetch w a syndesis = (Inr l, a', cs)"
    and "IsNotFound (loc_err l)"
    and "loc_namespaceVersion l = loc_targetVersion l"
  shows "let target = syndesis\<lparr>Status :=
             \<lparr>InstallationStatus = SyndesisInstallationStatusInstalled,
              Reason = SyndesisStatusReasonMissing,
              Version = operatorVersion a',
              LastUpgradeFailure = None,
              UpgradeAttempts = 0,
              ForceUpgrade = False\<rparr>\<rparr>;
             calls = cs @ [Call_Update target]
         in Execute w a syndesis = (sdk_Update w target, a', calls) \<and>
            updates calls = [target] \<and>
            applied calls = [] \<and>
            loc_targetVersion l = operatorVersion a'"
proof -
  have u: "updates cs = []" "applied cs = []" using Execute_fetch_calls[OF assms(1)] by simp_all
  have tv: "loc_targetVersion l = operatorVersion a'" using Execute_fetch_Inr[OF assms(1)] by blast
  show ?thesis
    using assms u tv
    by (cases "Status syndesis")
       (simp add: Execute_def Execute_branch_def upgradeCompleted_def completedTarget_def
                  DeepCopy_def Let_def updates_append applied_append)
qed

theorem current_version_without_pod_commits_installed_witness:
  "IsNotFound (loc_err (fetched ''1.5.0'' (Some (NotFound ''pod not found'')) [])) \<and>
   loc_namespaceVersion (fetched ''1.5.0'' (Some (NotFound ''pod not found'')) []) =
     loc_targetVersion (fetched ''1.5.0'' (Some (NotFound ''pod not found'')) []) \<and>
   InstallationStatus (Status (installation False)) = SyndesisInstallationStatusUpgrading \<and>
   UpgradeAttempts (Status (installation False)) = 2 \<and>
   Execute (cluster ''1.5.0'' ''1.5.0'' (Some (NotFound ''pod not found'')) [])
       \<lparr>operatorVersion = []\<rparr> (installation False) =
     (None, \<lparr>operatorVersion = ''1.5.0''\<rparr>,
      fetchCalls False @ [Call_Update ((installation False)\<lparr>Status :=
        \<lparr>InstallationStatus = SyndesisInstallationStatusInstalled,
         Reason = SyndesisStatusReasonMissing,
         Version = ''1.5.0'',
         LastUpgradeFailure = None,
         UpgradeAttempts = 0,
         ForceUpgrade = False\<rparr>\<rparr>)])"
proof -
  let ?w = "cluster ''1.5.0'' ''1.5.0'' (Some (NotFound ''pod not found'')) []"
  let ?l = "fetched ''1.5.0'' (Some (NotFound ''pod not found'')) []"
  have f: "Execute_fetch ?w \<lparr>operatorVersion = []\<rparr> (installation False) =
      (Inr ?l, \<lparr>operatorVersion = ''1.5.0''\<rparr>, fetchCalls False)"
    by (rule cluster_fetch) simp
  have absent: "IsNotFound (loc_err ?l)" by (simp add: fetched_def)
  have same: "loc_namespaceVersion ?l = loc_targetVersion ?l" by (simp add: fetched_def)
  have before: "InstallationStatus (Status (installation False)) = SyndesisInstallationStatusUpgrading"
    "UpgradeAttempts (Status (installation False)) = 2"
    by (simp_all add: installation_def)
  from current_version_without_pod_commits_installed[OF f absent same]
  have "Execute ?w \<lparr>operatorVersion = []\<rparr> (installation False) =
     (None, \<lparr>operatorVersion = ''1.5.0''\<rparr>,
      fetchCalls False @ [Call_Update ((installation False)\<lparr>Status :=
        \<lparr>InstallationStatus = SyndesisInstallationStatusInstalled,
         Reason = SyndesisStatusReasonMissing,
         Version = ''1.5.0'',
         LastUpgradeFailure = None,
         UpgradeAttempts = 0,
         ForceUpgrade = False\<rparr>\<rparr>)])"
    by (simp add: Let_def cluster_def)
  with absent same before show ?thesis by simp
qed

text \<open>
  C4. When the live pod is there, \<open>ForceUpgrade\<close> is not set, the phase of the pod is
  \<^verbatim>\<open>Succeeded\<close> and the version of the namespace, read again, still differs from the
  target version, the reconciliation submits exactly one update, whose result it
  returns: the installation with \<open>ForceUpgrade\<close> set and every other field as it was.
\<close>

theorem succeeded_pod_stale_version_sets_force:
  assumes "Execute_fetch w a syndesis = (Inr l, a', cs)"
    and "loc_err l = None"
    and "\<not> ForceUpgrade (Status syndesis)"
    and "Phase (loc_upgradePod l) = PodSucceeded"
    and "GetSyndesisVersionFromNamespace_again w (Namespace syndesis) = Inr newNamespaceVersion"
    and "newNamespaceVersion \<noteq> loc_targetVersion l"
  shows "let target = syndesis\<lparr>Status := (Status syndesis)\<lparr>ForceUpgrade := True\<rparr>\<rparr>;
             calls = cs @ [Call_GetSyndesisVersionFromNamespace (Namespace syndesis), Call_Update target]
         in Execute w a syndesis = (sdk_Update w target, a', calls) \<and>
            updates calls = [target] \<and>
            ForceUpgrade (Status target) \<and>
            InstallationStatus (Status target) = InstallationStatus (Status syndesis) \<and>
            Reason (Status target) = Reason (Status syndesis) \<and>
            Version (Status target) = Version (Status syndesis) \<and>
            UpgradeAttempts (Status target) = UpgradeAttempts (Status syndesis) \<and>
            LastUpgradeFailure (Status target) = LastUpgradeFailure (Status syndesis)"
proof -
  have u: "updates cs = []" using Execute_fetch_calls[OF assms(1)] by simp
  show ?thesis
    using assms u
    by (simp add: Execute_def Execute_branch_def forceSet_def DeepCopy_def Let_def updates_append)
qed

theorem succeeded_pod_stale_version_sets_force_witness:
  "loc_err (fetched ''1.4.2'' None PodSucceeded) = None \<and>
   \<not> ForceUpgrade (Status (installation False)) \<and>
   Phase (loc_upgradePod (fetched ''1.4.2'' None PodSucceeded)) = PodSucceeded \<and>
   GetSyndesisVersionFromNamespace_again (cluster ''1.4.2'' ''1.4.2'' None PodSucceeded)
     (Namespace (installation False)) = Inr ''1.4.2'' \<and>
   ''1.4.2'' \<noteq> loc_targetVersion (fetched ''1.4.2'' None PodSucceeded) \<and>
   Execute (cluster ''1.4.2'' ''1.4.2'' None PodSucceeded) \<lparr>operatorVersion = []\<rparr> (installation False) =
     (None, \<lparr>operatorVersion = ''1.5.0''\<rparr>,
      fetchCalls False @ [Call_GetSyndesisVersionFromNamespace ''syndesis'',
        Call_Update ((installation False)\<lparr>Status :=
        \<lparr>InstallationStatus = SyndesisInstallationStatusUpgrading,
         Reason = SyndesisStatusReasonMissing,
         Version = ''1.4.2'',
         LastUpgradeFailure = Some 500,
         UpgradeAttempts = 2,
         ForceUpgrade = True\<rparr>\<rparr>)])"
proof -
  let ?w = "cluster ''1.4.2'' ''1.4.2'' None PodSucceeded"
  let ?l = "fetched ''1.4.2'' None PodSucceeded"
  have f: "Execute_fetch ?w \<lparr>operatorVersion = []\<rparr> (installation False) =
      (Inr ?l, \<lparr>operatorVersion = ''1.5.0''\<rparr>, fetchCalls False)"
    by (rule cluster_fetch_present)
  have present: "loc_err ?l = None" by (simp add: fetched_def)
  have noforce: "\<not> ForceUpgrade (Status (installation False))" by (simp add: installation_def)
  have succeeded: "Phase (loc_upgradePod ?l) = PodSucceeded" by (simp add: fetched_def livePod_def)
  have again: "GetSyndesisVersionFromNamespace_again ?w (Namespace (installation False)) = Inr ''1.4.2''"
    by (simp add: cluster_def)
  have stale: "''1.4.2'' \<noteq> loc_targetVersion ?l" by (simp add: fetched_def)
  from succeeded_pod_stale_version_sets_force[OF f present noforce succeeded again stale]
  have "Execute ?w \<lparr>operatorVersion = []\<rparr> (installation False) =
     (None, \<lparr>operatorVersion = ''1.5.0''\<rparr>,
      fetchCalls False @ [Call_GetSyndesisVersionFromNamespace ''syndesis'',
        Call_Update ((installation False)\<lparr>Status :=
        \<lparr>InstallationStatus = SyndesisInstallationStatusUpgrading,
         Reason = SyndesisStatusReasonMissing,
         Version = ''1.4.2'',
         LastUpgradeFailure = Some 500,
         UpgradeAttempts = 2,
         ForceUpgrade = True\<rparr>\<rparr>)])"
    by (simp add: Let_def installation_def cluster_def)
  with present noforce succeeded again stale show ?thesis by simp
qed



text \<open>
  C6. Every installation that a reconciliation submits for update (there is at most
  one) has the \<open>UpgradeAttempts\<close> and the phase of the installation it was called
  with, or the attempts plus 1 and the phase \<open>UpgradeFailureBackoff\<close>, or no attempts
  and the phase \<open>Installed\<close>.
\<close>

theorem upgradeAttempts_changes_only_with_phase:
  assumes "Execute w a syndesis = (r, a', cs)"
    and "target \<in> set (updates cs)"
  shows "updates cs = [target] \<and>
     (UpgradeAttempts (Status target) = UpgradeAttempts (Status syndesis) \<and>
        InstallationStatus (Status target) = InstallationStatus (Status syndesis) \<or>
      UpgradeAttempts (Status target) = UpgradeAttempts (Status syndesis) + 1 \<and>
        InstallationStatus (Status target) = SyndesisInstallationStatusUpgradeFailureBackoff \<or>
      UpgradeAttempts (Status target) = 0 \<and>
        InstallationStatus (Status target) = SyndesisInstallationStatusInstalled)"
proof -
  have "\<exists>l fcs bcs. Execute_fetch w a syndesis = (Inr l, a', fcs) \<and>
      Execute_branch w syndesis l = (r, bcs) \<and> cs = fcs @ bcs"
  proof (cases "Execute_fetch w a syndesis")
    case (fields x a1 fcs)
    show ?thesis
    proof (cases x)
      case (Inl e)
      with fields assms(1) have "cs = fcs" by (simp add: Execute_def)
      with Execute_fetch_calls[OF fields] assms(2) show ?thesis by simp
    next
      case (Inr l)
      with fields assms(1) show ?thesis by (auto simp: Execute_def split: prod.splits)
    qed
  qed
  then obtain l fcs bcs where f: "Execute_fetch w a syndesis = (Inr l, a', fcs)"
    and b: "Execute_branch w syndesis l = (r, bcs)" and cs: "cs = fcs @ bcs"
    by blast
  have fu: "updates fcs = []" using Execute_fetch_calls[OF f] by simp
  with assms(2) cs have "updates bcs \<noteq> []" by (auto simp: updates_append)
  with Execute_branch_updates[OF b] obtain cs' t where t: "bcs = cs' @ [Call_Update t]"
    "updates cs' = []"
    "t = forceCleared syndesis \<or> t = forceSet syndesis \<and> \<not> ForceUpgrade (Status syndesis) \<or>
     t = failedTarget syndesis (time_Now w) \<and> \<not> ForceUpgrade (Status syndesis) \<or>
     t = completedTarget syndesis (loc_targetVersion l)"
    by blast
  have up: "updates cs = [t]" using t(1,2) fu cs by (simp add: updates_append)
  with assms(2) have tt: "target = t" by simp
  from t(3) show ?thesis
    unfolding up tt
    by (auto simp: forceCleared_def forceSet_def failedTarget_def completedTarget_def DeepCopy_def Let_def)
qed

theorem upgradeAttempts_changes_only_with_phase_witness:
  "UpgradeAttempts (Status (installation False)) = 2 \<and>
   (installation False)\<lparr>Status :=
        \<lparr>InstallationStatus = SyndesisInstallationStatusUpgradeFailureBackoff,
         Reason = SyndesisStatusReasonUpgradePodFailed,
         Version = ''1.4.2'',
         LastUpgradeFailure = Some 1000,
         UpgradeAttempts = 3,
         ForceUpgrade = False\<rparr>\<rparr>
     \<in> set (updates (snd (snd (Execute (cluster ''1.4.2'' ''1.4.2'' None PodFailed)
                 \<lparr>operatorVersion = []\<rparr> (installation False))))) \<and>
   length (updates (snd (snd (Execute (cluster ''1.4.2'' ''1.4.2'' None PodFailed)
                 \<lparr>operatorVersion = []\<rparr> (installation False))))) = 1"
proof -
  let ?t = "(installation False)\<lparr>Status :=
        \<lparr>InstallationStatus = SyndesisInstallationStatusUpgradeFailureBackoff,
         Reason = SyndesisStatusReasonUpgradePodFailed,
         Version = ''1.4.2'',
         LastUpgradeFailure = Some 1000,
         UpgradeAttempts = 3,
         ForceUpgrade = False\<rparr>\<rparr>"
  have "updates (fetchCalls False) = []" by (simp add: fetchCalls_def)
  then have m: "?t \<in> set (updates (fetchCalls False @ [Call_Now, Call_Update ?t]))"
    by (simp add: updates_append)
  have two: "UpgradeAttempts (Status (installation False)) = 2" by (simp add: installation_def)
  from upgradeAttempts_changes_only_with_phase[OF run_failed m]
  have "updates (fetchCalls False @ [Call_Now, Call_Update ?t]) = [?t]" by blast
  with two show ?thesis by (simp add: run_failed)
qed

text \<open>
  C7. \<open>findUpgradePod\<close> returns the first pod of the slice: a pointer to position \<open>i\<close>
  exactly when a pod is at \<open>i\<close> and none before it, and the error
  \<^verbatim>\<open>upgrade pod not found\<close> exactly when the slice has no pod. In that case a
  reconciliation that got as far as the rendered resources returns that error after
  the calls of the rendering, without an update and without an apply.
\<close>

theorem findUpgradePod_first_pod_or_error:
  "(findUpgradePod resources = Inr (i, pod) \<longleftrightarrow>
      i < length resources \<and> resources ! i = PodObject pod \<and> (\<forall>j<i. \<not> isPod (resources ! j))) \<and>
   (findUpgradePod resources = Inl e \<longleftrightarrow>
      e = Err ''upgrade pod not found'' \<and> (\<forall>res \<in> set resources. \<not> isPod res)) \<and>
   (resolveOperatorVersion w a = (Inr a', cs0) \<and>
    GetSyndesisVersionFromNamespace w (Namespace syndesis) = Inr namespaceVersion \<and>
    getUpgradeResources w a' syndesis = (Inr resources, cs2) \<and>
    (\<forall>res \<in> set resources. \<not> isPod res) \<longrightarrow>
      Execute w a syndesis =
        (Some (Err ''upgrade pod not found''), a',
         cs0 @ [Call_GetSyndesisVersionFromNamespace (Namespace syndesis)] @ cs2) \<and>
      updates (cs0 @ [Call_GetSyndesisVersionFromNamespace (Namespace syndesis)] @ cs2) = [] \<and>
      applied (cs0 @ [Call_GetSyndesisVersionFromNamespace (Namespace syndesis)] @ cs2) = [])"
proof (intro conjI impI)
  show "findUpgradePod resources = Inr (i, pod) \<longleftrightarrow>
      i < length resources \<and> resources ! i = PodObject pod \<and> (\<forall>j<i. \<not> isPod (resources ! j))"
    using findUpgradePod_from_Inr[of 0 resources i pod] findUpgradePod_from_first[of i resources pod 0]
    by (auto simp: findUpgradePod_def)
  show "findUpgradePod resources = Inl e \<longleftrightarrow>
      e = Err ''upgrade pod not found'' \<and> (\<forall>res \<in> set resources. \<not> isPod res)"
    using findUpgradePod_from_Inl[of 0 resources e] findUpgradePod_from_no_pod[of resources 0]
    by (auto simp: findUpgradePod_def)
next
  assume h: "resolveOperatorVersion w a = (Inr a', cs0) \<and>
    GetSyndesisVersionFromNamespace w (Namespace syndesis) = Inr namespaceVersion \<and>
    getUpgradeResources w a' syndesis = (Inr resources, cs2) \<and>
    (\<forall>res \<in> set resources. \<not> isPod res)"
  then have nf: "findUpgradePod resources = Inl (Err ''upgrade pod not found'')"
    using findUpgradePod_from_no_pod[of resources 0] by (simp add: findUpgradePod_def)
  have f: "Execute_fetch w a syndesis =
      (Inl (Err ''upgrade pod not found''), a',
       cs0 @ [Call_GetSyndesisVersionFromNamespace (Namespace syndesis)] @ cs2)"
    using h nf by (simp add: Execute_fetch_def Let_def)
  show "Execute w a syndesis =
        (Some (Err ''upgrade pod not found''), a',
         cs0 @ [Call_GetSyndesisVersionFromNamespace (Namespace syndesis)] @ cs2)"
    using f by (simp add: Execute_def)
  show "updates (cs0 @ [Call_GetSyndesisVersionFromNamespace (Namespace syndesis)] @ cs2) = []"
    using Execute_fetch_calls[OF f] by simp
  show "applied (cs0 @ [Call_GetSyndesisVersionFromNamespace (Namespace syndesis)] @ cs2) = []"
    using Execute_fetch_calls[OF f] by simp
qed

theorem findUpgradePod_first_pod_or_error_witness:
  "findUpgradePod [upgradeConfig, PodObject upgradePodTemplate] = Inr (1, upgradePodTemplate) \<and>
   findUpgradePod [upgradeConfig] = Inl (Err ''upgrade pod not found'') \<and>
   Execute ((cluster ''1.4.2'' ''1.4.2'' None ''Running'')
              \<lparr>GetUpgradeResources := (\<lambda>syndesis params. Inr [''config''])\<rparr>)
       \<lparr>operatorVersion = []\<rparr> (installation False) =
     (Some (Err ''upgrade pod not found''), \<lparr>operatorVersion = ''1.5.0''\<rparr>,
      [Call_GetSyndesisVersionFromOperatorTemplate,
       Call_GetSyndesisVersionFromNamespace ''syndesis'',
       Call_GetUpgradeResources (installation False)
         \<lparr>OAuthClientSecret = ''-'', SyndesisVersion = ''1.5.0''\<rparr>,
       Call_LoadKubernetesResource ''config''])"
proof -
  let ?w = "(cluster ''1.4.2'' ''1.4.2'' None ''Running'')
              \<lparr>GetUpgradeResources := (\<lambda>syndesis params. Inr [''config''])\<rparr>"
  let ?cs2 = "[Call_GetUpgradeResources (installation False)
         \<lparr>OAuthClientSecret = ''-'', SyndesisVersion = ''1.5.0''\<rparr>,
       Call_LoadKubernetesResource ''config'']"
  have first: "findUpgradePod [upgradeConfig, PodObject upgradePodTemplate] = Inr (1, upgradePodTemplate)"
    using findUpgradePod_first_pod_or_error[of "[upgradeConfig, PodObject upgradePodTemplate]"
        1 upgradePodTemplate]
    by (simp add: upgradeConfig_def)
  have version: "resolveOperatorVersion ?w \<lparr>operatorVersion = []\<rparr> =
      (Inr \<lparr>operatorVersion = ''1.5.0''\<rparr>, [Call_GetSyndesisVersionFromOperatorTemplate])"
    by (simp add: resolveOperatorVersion_def cluster_def)
  have live: "GetSyndesisVersionFromNamespace ?w (Namespace (installation False)) = Inr ''1.4.2''"
    by (simp add: cluster_def)
  have rendered: "getUpgradeResources ?w \<lparr>operatorVersion = ''1.5.0''\<rparr> (installation False) =
      (Inr [upgradeConfig], ?cs2)"
    by (simp add: getUpgradeResources_def cluster_def Let_def)
  have nopod: "\<forall>res \<in> set [upgradeConfig]. \<not> isPod res" by (simp add: upgradeConfig_def)
  note inst = findUpgradePod_first_pod_or_error[of "[upgradeConfig]" 0 upgradePodTemplate
      "Err ''upgrade pod not found''" ?w "\<lparr>operatorVersion = []\<rparr>" "\<lparr>operatorVersion = ''1.5.0''\<rparr>"
      "[Call_GetSyndesisVersionFromOperatorTemplate]" "installation False" "''1.4.2''" ?cs2]
  from inst nopod have none: "findUpgradePod [upgradeConfig] = Inl (Err ''upgrade pod not found'')"
    by blast
  from inst version live rendered nopod
  have "Execute ?w \<lparr>operatorVersion = []\<rparr> (installation False) =
      (Some (Err ''upgrade pod not found''), \<lparr>operatorVersion = ''1.5.0''\<rparr>,
       [Call_GetSyndesisVersionFromOperatorTemplate] @
       [Call_GetSyndesisVersionFromNamespace (Namespace (installation False))] @ ?cs2)"
    by blast
  then have "Execute ?w \<lparr>operatorVersion = []\<rparr> (installation False) =
      (Some (Err ''upgrade pod not found''), \<lparr>operatorVersion = ''1.5.0''\<rparr>,
       [Call_GetSyndesisVersionFromOperatorTemplate,
        Call_GetSyndesisVersionFromNamespace ''syndesis'',
        Call_GetUpgradeResources (installation False)
          \<lparr>OAuthClientSecret = ''-'', SyndesisVersion = ''1.5.0''\<rparr>,
        Call_LoadKubernetesResource ''config''])"
    by (simp add: installation_def)
  with first none show ?thesis by simp
qed

text \<open>
  C8. A reconciliation returns the error, submits no update and applies nothing when
  the error comes from reading the operator's template (with the cache empty), from
  reading the version of the namespace (at line 40, or again at line 98), from
  rendering or loading the resources, from locating the template pod, or from fetching
  the live pod (an error other than not-found). The installation it was called with is
  a value of the caller and is not written.
\<close>

theorem errors_before_commit_leave_status_alone:
  assumes "operatorVersion a = [] \<and> GetSyndesisVersionFromOperatorTemplate w = Inl e
    \<or> resolveOperatorVersion w a = (Inr a1, cs0) \<and>
       GetSyndesisVersionFromNamespace w (Namespace syndesis) = Inl e
    \<or> resolveOperatorVersion w a = (Inr a1, cs0) \<and>
       GetSyndesisVersionFromNamespace w (Namespace syndesis) = Inr namespaceVersion \<and>
       getUpgradeResources w a1 syndesis = (Inl e, cs2)
    \<or> resolveOperatorVersion w a = (Inr a1, cs0) \<and>
       GetSyndesisVersionFromNamespace w (Namespace syndesis) = Inr namespaceVersion \<and>
       getUpgradeResources w a1 syndesis = (Inr resources, cs2) \<and>
       findUpgradePod resources = Inl e
    \<or> resolveOperatorVersion w a = (Inr a1, cs0) \<and>
       GetSyndesisVersionFromNamespace w (Namespace syndesis) = Inr namespaceVersion \<and>
       getUpgradeResources w a1 syndesis = (Inr resources, cs2) \<and>
       findUpgradePod resources = Inr templateUpgradePod \<and>
       getUpgradePodFromNamespace w (snd templateUpgradePod) syndesis = ((upgradePod, Some e), cs3) \<and>
       \<not> IsNotFound (Some e)
    \<or> Execute_fetch w a syndesis = (Inr l, a1, cs) \<and>
       \<not> ForceUpgrade (Status syndesis) \<and> loc_err l = None \<and>
       Phase (loc_upgradePod l) = PodSucceeded \<and>
       GetSyndesisVersionFromNamespace_again w (Namespace syndesis) = Inl e"
  shows "fst (Execute w a syndesis) = Some e \<and>
         updates (snd (snd (Execute w a syndesis))) = [] \<and>
         applied (snd (snd (Execute w a syndesis))) = []"
proof -
  have fetch_err: "fst (Execute w a syndesis) = Some e \<and>
         updates (snd (snd (Execute w a syndesis))) = [] \<and>
         applied (snd (snd (Execute w a syndesis))) = []"
    if "Execute_fetch w a syndesis = (Inl e, a2, fcs)" for a2 fcs
    using that Execute_fetch_calls[OF that] by (simp add: Execute_def)
  from assms show ?thesis
  proof (elim disjE conjE)
    assume template: "operatorVersion a = []" "GetSyndesisVersionFromOperatorTemplate w = Inl e"
    from template have "Execute_fetch w a syndesis = (Inl e, a, [Call_GetSyndesisVersionFromOperatorTemplate])"
      by (simp add: Execute_fetch_def resolveOperatorVersion_def)
    then show ?thesis by (rule fetch_err)
  next
    assume live: "resolveOperatorVersion w a = (Inr a1, cs0)"
        "GetSyndesisVersionFromNamespace w (Namespace syndesis) = Inl e"
    from live have "Execute_fetch w a syndesis =
        (Inl e, a1, cs0 @ [Call_GetSyndesisVersionFromNamespace (Namespace syndesis)])"
      by (simp add: Execute_fetch_def Let_def)
    then show ?thesis by (rule fetch_err)
  next
    assume render: "resolveOperatorVersion w a = (Inr a1, cs0)"
        "GetSyndesisVersionFromNamespace w (Namespace syndesis) = Inr namespaceVersion"
        "getUpgradeResources w a1 syndesis = (Inl e, cs2)"
    from render have "Execute_fetch w a syndesis =
        (Inl e, a1, (cs0 @ [Call_GetSyndesisVersionFromNamespace (Namespace syndesis)]) @ cs2)"
      by (simp add: Execute_fetch_def Let_def)
    then show ?thesis by (rule fetch_err)
  next
    assume locate: "resolveOperatorVersion w a = (Inr a1, cs0)"
        "GetSyndesisVersionFromNamespace w (Namespace syndesis) = Inr namespaceVersion"
        "getUpgradeResources w a1 syndesis = (Inr resources, cs2)"
        "findUpgradePod resources = Inl e"
    from locate have "Execute_fetch w a syndesis =
        (Inl e, a1, (cs0 @ [Call_GetSyndesisVersionFromNamespace (Namespace syndesis)]) @ cs2)"
      by (simp add: Execute_fetch_def Let_def)
    then show ?thesis by (rule fetch_err)
  next
    assume get: "resolveOperatorVersion w a = (Inr a1, cs0)"
        "GetSyndesisVersionFromNamespace w (Namespace syndesis) = Inr namespaceVersion"
        "getUpgradeResources w a1 syndesis = (Inr resources, cs2)"
        "findUpgradePod resources = Inr templateUpgradePod"
        "getUpgradePodFromNamespace w (snd templateUpgradePod) syndesis = ((upgradePod, Some e), cs3)"
        "\<not> IsNotFound (Some e)"
    from get have "Execute_fetch w a syndesis =
        (Inl e, a1, (cs0 @ [Call_GetSyndesisVersionFromNamespace (Namespace syndesis)]) @ cs2 @ cs3)"
      by (simp add: Execute_fetch_def Let_def)
    then show ?thesis by (rule fetch_err)
  next
    assume again: "Execute_fetch w a syndesis = (Inr l, a1, cs)"
        "\<not> ForceUpgrade (Status syndesis)" "loc_err l = None"
        "Phase (loc_upgradePod l) = PodSucceeded"
        "GetSyndesisVersionFromNamespace_again w (Namespace syndesis) = Inl e"
    have u: "updates cs = []" "applied cs = []" using Execute_fetch_calls[OF again(1)] by simp_all
    show ?thesis
      using again u
      by (simp add: Execute_def Execute_branch_def Let_def updates_append applied_append)
  qed
qed

theorem errors_before_commit_leave_status_alone_witness:
  "operatorVersion \<lparr>operatorVersion = []\<rparr> = [] \<and>
   GetSyndesisVersionFromOperatorTemplate
     ((cluster ''1.4.2'' ''1.4.2'' None ''Running'')
        \<lparr>GetSyndesisVersionFromOperatorTemplate := Inl (Err ''template unreadable'')\<rparr>) =
     Inl (Err ''template unreadable'') \<and>
   fst (Execute ((cluster ''1.4.2'' ''1.4.2'' None ''Running'')
        \<lparr>GetSyndesisVersionFromOperatorTemplate := Inl (Err ''template unreadable'')\<rparr>)
        \<lparr>operatorVersion = []\<rparr> (installation False)) = Some (Err ''template unreadable'') \<and>
   updates (snd (snd (Execute ((cluster ''1.4.2'' ''1.4.2'' None ''Running'')
        \<lparr>GetSyndesisVersionFromOperatorTemplate := Inl (Err ''template unreadable'')\<rparr>)
        \<lparr>operatorVersion = []\<rparr> (installation False)))) = [] \<and>
   applied (snd (snd (Execute ((cluster ''1.4.2'' ''1.4.2'' None ''Running'')
        \<lparr>GetSyndesisVersionFromOperatorTemplate := Inl (Err ''template unreadable'')\<rparr>)
        \<lparr>operatorVersion = []\<rparr> (installation False)))) = []"
proof -
  let ?w = "(cluster ''1.4.2'' ''1.4.2'' None ''Running'')
        \<lparr>GetSyndesisVersionFromOperatorTemplate := Inl (Err ''template unreadable'')\<rparr>"
  have cold: "operatorVersion \<lparr>operatorVersion = []\<rparr> = []" by simp
  have unreadable: "GetSyndesisVersionFromOperatorTemplate ?w = Inl (Err ''template unreadable'')"
    by simp
  have "fst (Execute ?w \<lparr>operatorVersion = []\<rparr> (installation False)) = Some (Err ''template unreadable'') \<and>
     updates (snd (snd (Execute ?w \<lparr>operatorVersion = []\<rparr> (installation False)))) = [] \<and>
     applied (snd (snd (Execute ?w \<lparr>operatorVersion = []\<rparr> (installation False)))) = []"
    by (rule errors_before_commit_leave_status_alone, rule disjI1, rule conjI, rule cold, rule unreadable)
  with cold unreadable show ?thesis by simp
qed

text \<open>
  C9 (as amended). With the cache empty, a reconciliation reads the operator's template
  exactly once. When the read fails the reconciliation returns the error and the cache
  stays empty, so the next reconciliation reads again. When the read returns a version
  the cache holds it, whatever happens later in that reconciliation; if that version
  is not the empty string, the next reconciliation does not read the template, keeps
  the cache and takes the cached version as its target version. A read that returns
  the empty string leaves the cache empty, and the next reconciliation reads again.
\<close>

theorem operatorVersion_read_until_nonempty:
  assumes "operatorVersion a = []"
    and "Execute w1 a syndesis1 = (r1, a1, cs1)"
    and "Execute w2 a1 syndesis2 = (r2, a2, cs2)"
  shows "templateReads cs1 = 1 \<and>
     (case GetSyndesisVersionFromOperatorTemplate w1 of
        Inl err \<Rightarrow> r1 = Some err \<and> a1 = a \<and> templateReads cs2 = 1
      | Inr v \<Rightarrow>
          operatorVersion a1 = v \<and>
          (if v \<noteq> [] then
             templateReads cs2 = 0 \<and> a2 = a1 \<and>
             (\<forall>l a' cs. Execute_fetch w2 a1 syndesis2 = (Inr l, a', cs) \<longrightarrow> loc_targetVersion l = v)
           else templateReads cs2 = 1))"
proof -
  have r1: "templateReads cs1 = 1" using Execute_templateReads[OF assms(2)] assms(1) by simp
  show ?thesis
  proof (cases "GetSyndesisVersionFromOperatorTemplate w1")
    case (Inl err)
    then have f: "Execute_fetch w1 a syndesis1 = (Inl err, a, [Call_GetSyndesisVersionFromOperatorTemplate])"
      using assms(1) by (simp add: Execute_fetch_def resolveOperatorVersion_def)
    with assms(2) have "r1 = Some err" "a1 = a" by (simp_all add: Execute_def)
    with Execute_templateReads[OF assms(3)] assms(1) r1 Inl show ?thesis by simp
  next
    case (Inr v)
    with Execute_action[OF assms(2)] assms(1) have a1: "a1 = a\<lparr>operatorVersion := v\<rparr>"
      by (simp add: resolveOperatorVersion_def)
    show ?thesis
    proof (cases "v = []")
      case True
      with a1 Execute_templateReads[OF assms(3)] r1 Inr show ?thesis by simp
    next
      case False
      with a1 have ne: "operatorVersion a1 \<noteq> []" by simp
      then have res: "resolveOperatorVersion w2 a1 = (Inr a1, [])"
        by (simp add: resolveOperatorVersion_def)
      have a2: "a2 = a1" using Execute_action[OF assms(3)] res by simp
      have tv: "loc_targetVersion l = v" if "Execute_fetch w2 a1 syndesis2 = (Inr l, a', cs)" for l a' cs
        using Execute_fetch_Inr[OF that] res a1 by auto
      from Execute_templateReads[OF assms(3)] ne a1 a2 tv r1 Inr False show ?thesis
        by auto
    qed
  qed
qed

theorem operatorVersion_read_until_nonempty_witness:
  "operatorVersion \<lparr>operatorVersion = []\<rparr> = [] \<and>
   Execute (cluster ''1.4.2'' ''1.4.2'' None ''Running'') \<lparr>operatorVersion = []\<rparr> (installation False) =
     (None, \<lparr>operatorVersion = ''1.5.0''\<rparr>, fetchCalls False) \<and>
   Execute (cluster ''1.4.2'' ''1.4.2'' None ''Running'') \<lparr>operatorVersion = ''1.5.0''\<rparr> (installation False) =
     (None, \<lparr>operatorVersion = ''1.5.0''\<rparr>, tl (fetchCalls False)) \<and>
   templateReads (fetchCalls False) = 1 \<and>
   templateReads (tl (fetchCalls False)) = 0"
proof -
  have cold: "operatorVersion \<lparr>operatorVersion = []\<rparr> = []" by simp
  from operatorVersion_read_until_nonempty[OF cold run_running run_running_cached]
  have "templateReads (fetchCalls False) = 1 \<and> templateReads (tl (fetchCalls False)) = 0"
    by (simp add: cluster_def)
  with cold run_running run_running_cached show ?thesis by simp
qed

text \<open>
  C9 as stated fails when the template is read with success and yields the empty
  string: the cache stays empty and the second reconciliation reads the template again.
\<close>

theorem empty_operatorVersion_is_read_again:
  "GetSyndesisVersionFromOperatorTemplate
     ((cluster ''1.4.2'' ''1.4.2'' None ''Running'')\<lparr>GetSyndesisVersionFromOperatorTemplate := Inr []\<rparr>) =
     Inr [] \<and>
   templateReads (snd (snd (Execute
     ((cluster ''1.4.2'' ''1.4.2'' None ''Running'')\<lparr>GetSyndesisVersionFromOperatorTemplate := Inr []\<rparr>)
     \<lparr>operatorVersion = []\<rparr> (installation False)))) = 1 \<and>
   fst (snd (Execute
     ((cluster ''1.4.2'' ''1.4.2'' None ''Running'')\<lparr>GetSyndesisVersionFromOperatorTemplate := Inr []\<rparr>)
     \<lparr>operatorVersion = []\<rparr> (installation False))) = \<lparr>operatorVersion = []\<rparr> \<and>
   templateReads (snd (snd (Execute
     ((cluster ''1.4.2'' ''1.4.2'' None ''Running'')\<lparr>GetSyndesisVersionFromOperatorTemplate := Inr []\<rparr>)
     (fst (snd (Execute
       ((cluster ''1.4.2'' ''1.4.2'' None ''Running'')\<lparr>GetSyndesisVersionFromOperatorTemplate := Inr []\<rparr>)
       \<lparr>operatorVersion = []\<rparr> (installation False))))
     (installation False)))) = 1"
proof -
  let ?w = "(cluster ''1.4.2'' ''1.4.2'' None ''Running'')\<lparr>GetSyndesisVersionFromOperatorTemplate := Inr []\<rparr>"
  obtain r a' cs where e: "Execute ?w \<lparr>operatorVersion = []\<rparr> (installation False) = (r, a', cs)"
    by (cases "Execute ?w \<lparr>operatorVersion = []\<rparr> (installation False)")
  have reads: "templateReads cs = 1" using Execute_templateReads[OF e] by simp
  have cache: "a' = \<lparr>operatorVersion = []\<rparr>"
    using Execute_action[OF e] by (simp add: resolveOperatorVersion_def)
  obtain r2 a2 cs2 where e2: "Execute ?w \<lparr>operatorVersion = []\<rparr> (installation False) = (r2, a2, cs2)"
    by (cases "Execute ?w \<lparr>operatorVersion = []\<rparr> (installation False)")
  have again: "templateReads cs2 = 1" using Execute_templateReads[OF e2] by simp
  show ?thesis using e reads cache again e2 by simp
qed

text \<open>
  C10. The resources applied by a reconciliation are, in order, the stamped resources
  of the rendered list in which the pod behind \<open>templateUpgradePod\<close> already has the
  service account \<^verbatim>\<open>syndesis-operator\<close>: the write of line 68 comes before the loop. On
  the path that applies (no live pod or force set, versions differing) the calls after
  the fetch start with those of the loop over that list, and no other call applies.
  The upgrade pod, when its turn comes, is applied with that service account.
\<close>

theorem service_account_set_in_applied_resources:
  assumes "Execute_fetch w a syndesis = (Inr l, a', cs)"
    and "Execute w a syndesis = (r, a'', calls)"
  shows "let i = fst (loc_templateUpgradePod l);
             resources = (loc_resources l)[i := PodObject ((snd (loc_templateUpgradePod l))
                            \<lparr>ServiceAccountName := UpgradePodServiceAccountName\<rparr>)]
         in i < length resources \<and>
            (\<exists>pod. resources ! i = PodObject pod \<and> ServiceAccountName pod = ''syndesis-operator'') \<and>
            (\<exists>n \<le> length resources.
               applied calls = take n (map (\<lambda>res. (setNamespaceAndOwnerReference res syndesis, True)) resources)) \<and>
            (i < length (applied calls) \<longrightarrow>
               (\<exists>pod. applied calls ! i = (PodObject pod, True) \<and>
                      ServiceAccountName pod = ''syndesis-operator'')) \<and>
            ((ForceUpgrade (Status syndesis) \<or> IsNotFound (loc_err l)) \<and>
              loc_namespaceVersion l \<noteq> loc_targetVersion l \<longrightarrow>
               (\<exists>rest. calls = cs @ snd (applyResources w syndesis resources) @ rest \<and> applied rest = []))"
proof -
  define i where "i = fst (loc_templateUpgradePod l)"
  define resources where "resources = (loc_resources l)[i := PodObject ((snd (loc_templateUpgradePod l))
                            \<lparr>ServiceAccountName := UpgradePodServiceAccountName\<rparr>)]"
  define stamp where "stamp = (\<lambda>res. (setNamespaceAndOwnerReference res syndesis, True))"
  have fp: "findUpgradePod (loc_resources l) = Inr (i, snd (loc_templateUpgradePod l))"
    using Execute_fetch_Inr[OF assms(1)] by (auto simp: i_def)
  then have len: "i < length resources"
    using findUpgradePod_from_Inr[of 0 "loc_resources l" i "snd (loc_templateUpgradePod l)"]
    by (simp add: findUpgradePod_def resources_def)
  then have at: "resources ! i = PodObject ((snd (loc_templateUpgradePod l))
                            \<lparr>ServiceAccountName := UpgradePodServiceAccountName\<rparr>)"
    by (simp add: resources_def)
  have sa: "\<exists>pod. resources ! i = PodObject pod \<and> ServiceAccountName pod = ''syndesis-operator''"
    using at by (simp add: UpgradePodServiceAccountName_def)
  obtain rb bcs where b: "Execute_branch w syndesis l = (rb, bcs)"
    by (cases "Execute_branch w syndesis l")
  with assms have calls: "calls = cs @ bcs" by (simp add: Execute_def)
  have fa: "applied cs = []" using Execute_fetch_calls[OF assms(1)] by simp
  obtain ra acs where ap: "applyResources w syndesis resources = (ra, acs)"
    by (cases "applyResources w syndesis resources")
  from applyResources_calls[OF ap] obtain n where n: "n \<le> length resources"
    "applied acs = take n (map stamp resources)"
    by (auto simp: stamp_def)
  have branch: "applied bcs = []
      \<and> \<not> ((ForceUpgrade (Status syndesis) \<or> IsNotFound (loc_err l)) \<and>
              loc_namespaceVersion l \<noteq> loc_targetVersion l)
     \<or> (bcs = acs \<or> (\<exists>t. bcs = acs @ [Call_Update t])) \<and>
        (ForceUpgrade (Status syndesis) \<or> IsNotFound (loc_err l)) \<and>
              loc_namespaceVersion l \<noteq> loc_targetVersion l"
    using b ap unfolding Execute_branch_def upgradeCompleted_def Let_def resources_def i_def
    by (auto split: if_splits sum.splits option.splits)
  have pre: "\<exists>n \<le> length resources. applied calls = take n (map stamp resources)"
  proof -
    from branch have "applied bcs = [] \<or> applied bcs = applied acs"
      by (auto simp: applied_append)
    then show ?thesis
    proof
      assume "applied bcs = []"
      then have "applied calls = take 0 (map stamp resources)" using calls fa by (simp add: applied_append)
      then show ?thesis by blast
    next
      assume "applied bcs = applied acs"
      then have "applied calls = take n (map stamp resources)" using calls fa n by (simp add: applied_append)
      with n(1) show ?thesis by blast
    qed
  qed
  have pod: "\<exists>pod. applied calls ! i = (PodObject pod, True) \<and>
                      ServiceAccountName pod = ''syndesis-operator''" if "i < length (applied calls)"
  proof -
    from pre obtain m where m: "m \<le> length resources" "applied calls = take m (map stamp resources)"
      by blast
    with that have "i < m" by simp
    with m len have "applied calls ! i = stamp (resources ! i)" by simp
    with at show ?thesis by (simp add: stamp_def UpgradePodServiceAccountName_def)
  qed
  have path: "\<exists>rest. calls = cs @ snd (applyResources w syndesis resources) @ rest \<and> applied rest = []"
    if "(ForceUpgrade (Status syndesis) \<or> IsNotFound (loc_err l)) \<and>
              loc_namespaceVersion l \<noteq> loc_targetVersion l"
  proof -
    from branch that have "bcs = acs \<or> (\<exists>t. bcs = acs @ [Call_Update t])" by blast
    then show ?thesis
    proof
      assume "bcs = acs"
      then have "calls = cs @ snd (applyResources w syndesis resources) @ [] \<and> applied [] = []"
        using calls ap by simp
      then show ?thesis by blast
    next
      assume "\<exists>t. bcs = acs @ [Call_Update t]"
      then obtain t where "bcs = acs @ [Call_Update t]" by blast
      then have "calls = cs @ snd (applyResources w syndesis resources) @ [Call_Update t] \<and>
          applied [Call_Update t] = []"
        using calls ap by simp
      then show ?thesis by blast
    qed
  qed
  show ?thesis
    unfolding Let_def i_def[symmetric] resources_def[symmetric] stamp_def[symmetric]
    using len sa pre pod path by blast
qed

theorem service_account_set_in_applied_resources_witness:
  "applied (snd (snd (Execute (cluster ''1.4.2'' ''1.4.2'' None ''Running'')
       \<lparr>operatorVersion = []\<rparr> (installation True)))) ! 1 =
     (PodObject
        \<lparr>Name = ''syndesis-upgrade'', Namespace = ''syndesis'',
         OwnerReferences = [\<lparr>OwnerKind = ''Syndesis'', OwnerName = ''example''\<rparr>],
         APIVersion = ''v1'', Kind = ''Pod'', ServiceAccountName = ''syndesis-operator'',
         Phase = []\<rparr>, True) \<and>
   length (applied (snd (snd (Execute (cluster ''1.4.2'' ''1.4.2'' None ''Running'')
       \<lparr>operatorVersion = []\<rparr> (installation True))))) = 2"
proof -
  let ?w = "cluster ''1.4.2'' ''1.4.2'' None ''Running''"
  let ?l = "fetched ''1.4.2'' None ''Running''"
  have f: "Execute_fetch ?w \<lparr>operatorVersion = []\<rparr> (installation True) =
      (Inr ?l, \<lparr>operatorVersion = ''1.5.0''\<rparr>, fetchCalls True)"
    by (rule cluster_fetch_present)
  have len: "length (applied (snd (snd (Execute ?w \<lparr>operatorVersion = []\<rparr> (installation True))))) = 2"
    by (simp add: run_forced applied_append fetchCalls_def)
  have i: "fst (loc_templateUpgradePod ?l) = 1" by (simp add: fetched_def)
  from service_account_set_in_applied_resources[OF f run_forced] len i
  have "\<exists>pod. applied (snd (snd (Execute ?w \<lparr>operatorVersion = []\<rparr> (installation True)))) ! 1 =
      (PodObject pod, True) \<and> ServiceAccountName pod = ''syndesis-operator''"
    by (simp add: Let_def run_forced)
  then show ?thesis using len by (simp add: run_forced applied_append fetchCalls_def)
qed

end
